theory Spec2Isabelle
  imports Complex_Main "HOL-Library.Char_ord" "HOL-Library.List_Lexorder" "HOL-Library.Multiset"
begin

section \<open>Resilient request executor (clients.py, BaseClient, make-request)\<close>

text \<open>
  One attempt of the executor opens a client, sends the request, checks the status and
  parses the body. It either yields the parsed JSON body (which may itself be JSON null,
  Python's None: hence the option inside \<open>Parsed\<close>), or raises
  \<open>httpx.HTTPStatusError\<close>, or raises any other exception (transport failure,
  time-out of the attempt, body that does not parse).
\<close>

datatype 'p attempt_outcome =
    Parsed "'p option"
  | HTTPStatusError
  | OtherException

text \<open>
  What the loop leaves behind: the value returned to the caller, the number of attempts
  that were started and the number of \<open>asyncio.sleep(retry_delay)\<close> calls.
\<close>

record 'p request_run =
  returned :: "'p option"
  attempts_made :: nat
  sleeps_made :: nat

text \<open>
  \<open>for attempt in range(self.max_retries)\<close>: the network is a function from the
  attempt index to what that attempt does. \<open>max_retries\<close> is a Python int read
  from the environment, so it may be zero or negative, and then the body never runs.
\<close>

function request_loop ::
  "int \<Rightarrow> (nat \<Rightarrow> 'p attempt_outcome) \<Rightarrow> nat \<Rightarrow> nat \<Rightarrow> 'p request_run" where
  "request_loop max_retries net attempt sleeps =
     (if int attempt < max_retries then
        (case net attempt of
           Parsed body \<Rightarrow>
             \<lparr>returned = body, attempts_made = Suc attempt, sleeps_made = sleeps\<rparr>
         | HTTPStatusError \<Rightarrow>
             (if int attempt < max_retries - 1
              then request_loop max_retries net (Suc attempt) (Suc sleeps)
              else \<lparr>returned = None, attempts_made = Suc attempt, sleeps_made = sleeps\<rparr>)
         | OtherException \<Rightarrow>
             (if int attempt < max_retries - 1
              then request_loop max_retries net (Suc attempt) (Suc sleeps)
              else \<lparr>returned = None, attempts_made = Suc attempt, sleeps_made = sleeps\<rparr>))
      else \<lparr>returned = None, attempts_made = attempt, sleeps_made = sleeps\<rparr>)"
  by pat_completeness auto
termination
  by (relation "measure (\<lambda>(m, net, attempt, sleeps). nat (m - int attempt))") auto

declare request_loop.simps [simp del]

definition make_request :: "int \<Rightarrow> (nat \<Rightarrow> 'p attempt_outcome) \<Rightarrow> 'p request_run" where
  "make_request max_retries net = request_loop max_retries net 0 0"

definition attempt_failed :: "'p attempt_outcome \<Rightarrow> bool" where
  "attempt_failed out = (case out of Parsed body \<Rightarrow> False | _ \<Rightarrow> True)"

section \<open>Python values of the JSON payloads\<close>

text \<open>
  The records that travel through the orchestrator are Python dicts decoded from JSON.
  Their fields hold scalars: \<open>None\<close>, a bool, a number or a string. Python's
  \<open>int\<close> and \<open>float\<close> are both read as exact real numbers: \<open>1 == 1.0\<close>
  holds in Python as it does here, and binary floating-point rounding is not modelled.
  A dict is a finite map from keys to values; a missing key is \<open>None\<close> of the map.
\<close>

datatype pyval = PNone | PBool bool | PNum real | PStr string

type_synonym pydict = "string \<rightharpoonup> pyval"


text \<open>
  The numeric value of an operand of \<open>+\<close>, \<open>>\<close> and \<open>sum\<close>: bool is a
  subclass of int in Python, \<open>None\<close> and strings are not numbers.
\<close>

fun num_of :: "pyval \<Rightarrow> real option" where
  "num_of (PBool b) = Some (if b then 1 else 0)"
| "num_of (PNum r) = Some r"
| "num_of PNone = None"
| "num_of (PStr s) = None"

fun str_of :: "pyval \<Rightarrow> string option" where
  "str_of (PStr s) = Some s"
| "str_of PNone = None"
| "str_of (PBool b) = None"
| "str_of (PNum r) = None"



definition dict_get_or :: "pydict \<Rightarrow> string \<Rightarrow> pyval \<Rightarrow> pyval" where
  "dict_get_or d key dflt = (case d key of None \<Rightarrow> dflt | Some v \<Rightarrow> v)"


text \<open>
  The aggregation code raises nothing of its own accord; what can go wrong in it is an
  operator applied to a field of the wrong kind, which Python reports as a TypeError.
\<close>

datatype py_error = TypeError

text \<open>
  \<open>sum(values)\<close> starts from the int 0 and adds from the left, so every value must be
  a number.
\<close>

fun py_sum_from :: "real \<Rightarrow> pyval list \<Rightarrow> py_error + real" where
  "py_sum_from acc [] = Inr acc"
| "py_sum_from acc (v # vs) =
     (case num_of v of
        None \<Rightarrow> Inl TypeError
      | Some r \<Rightarrow> py_sum_from (acc + r) vs)"

definition py_sum :: "pyval list \<Rightarrow> py_error + real" where
  "py_sum vs = py_sum_from 0 vs"

text \<open>
  \<open>sorted(xs, key=f, reverse=r)\<close>. The sort is stable. With fewer than two elements
  nothing is compared. Otherwise the keys are compared with \<open><\<close>, which is defined
  between two strings (by code point, lexicographically) and between two numbers, and
  raises TypeError for any other pair, so the call succeeds exactly when the keys are
  all strings or all numbers; \<open>str_value\<close> and \<open>num_value\<close> read such a key.
  \<open>reverse=True\<close> reverses the list, sorts it and reverses the result, which keeps
  equal keys in their original order.
\<close>

definition str_value :: "pyval \<Rightarrow> string" where
  "str_value v = (case str_of v of None \<Rightarrow> [] | Some s \<Rightarrow> s)"

definition num_value :: "pyval \<Rightarrow> real" where
  "num_value v = (case num_of v of None \<Rightarrow> 0 | Some r \<Rightarrow> r)"

definition stable_sort_key :: "('a \<Rightarrow> 'k::linorder) \<Rightarrow> bool \<Rightarrow> 'a list \<Rightarrow> 'a list" where
  "stable_sort_key f reverse xs =
     (if reverse then rev (sort_key f (rev xs)) else sort_key f xs)"

definition py_sorted :: "('a \<Rightarrow> pyval) \<Rightarrow> bool \<Rightarrow> 'a list \<Rightarrow> py_error + 'a list" where
  "py_sorted key reverse xs =
     (if length xs < 2 then Inr xs
      else if list_all (\<lambda>x. str_of (key x) \<noteq> None) xs
      then Inr (stable_sort_key (\<lambda>x. str_value (key x)) reverse xs)
      else if list_all (\<lambda>x. num_of (key x) \<noteq> None) xs
      then Inr (stable_sort_key (\<lambda>x. num_value (key x)) reverse xs)
      else Inl TypeError)"

section \<open>Service adapters (clients.py)\<close>

text \<open>
  The metrics service answers with a dict with the keys \<open>items\<close>, \<open>count\<close> and
  \<open>dashboard\<close>; each may be missing (\<open>None\<close> of the option). \<open>{}\<close> is the bundle
  with no key at all.
\<close>

record metrics_bundle =
  items :: "pydict list option"
  count :: "pyval option"
  dashboard :: "pydict list option"

definition empty_bundle :: metrics_bundle where
  "empty_bundle = \<lparr>items = None, count = None, dashboard = None\<rparr>"

text \<open>\<open>{"items": [], "count": 0, "dashboard": []}\<close>\<close>

definition default_bundle :: metrics_bundle where
  "default_bundle = \<lparr>items = Some [], count = Some (PNum 0), dashboard = Some []\<rparr>"

text \<open>
  What the remote hosts do, per endpoint: the outcome of each attempt of a request. The
  profile and by-user endpoints carry the user id in the URL, the metrics endpoint gets
  the query as the JSON body of a POST.
\<close>

record transport =
  users_endpoint :: "nat \<Rightarrow> pydict list attempt_outcome"
  profile_endpoint :: "int \<Rightarrow> nat \<Rightarrow> pydict attempt_outcome"
  scraped_accounts_endpoint :: "nat \<Rightarrow> pydict list attempt_outcome"
  scraped_accounts_by_user_endpoint :: "int \<Rightarrow> nat \<Rightarrow> pydict list attempt_outcome"
  dbquery_user_endpoint :: "pydict \<Rightarrow> nat \<Rightarrow> metrics_bundle attempt_outcome"
  dashboard_endpoint :: "nat \<Rightarrow> pydict list attempt_outcome"

text \<open>\<open>response if response else []\<close>: None and the empty list are falsy.\<close>

definition list_or_empty :: "'a list option \<Rightarrow> 'a list" where
  "list_or_empty response =
     (case response of None \<Rightarrow> [] | Some r \<Rightarrow> if r \<noteq> [] then r else [])"

definition ms1_get_all_users :: "int \<Rightarrow> transport \<Rightarrow> pydict list" where
  "ms1_get_all_users max_retries t =
     list_or_empty (returned (make_request max_retries (users_endpoint t)))"

definition ms1_get_user_profile :: "int \<Rightarrow> transport \<Rightarrow> int \<Rightarrow> pydict option" where
  "ms1_get_user_profile max_retries t user_id =
     returned (make_request max_retries (profile_endpoint t user_id))"

definition ms2_get_all_scraped_accounts :: "int \<Rightarrow> transport \<Rightarrow> pydict list" where
  "ms2_get_all_scraped_accounts max_retries t =
     list_or_empty (returned (make_request max_retries (scraped_accounts_endpoint t)))"

definition ms2_get_scraped_accounts_by_user :: "int \<Rightarrow> transport \<Rightarrow> int \<Rightarrow> pydict list" where
  "ms2_get_scraped_accounts_by_user max_retries t user_id =
     list_or_empty
       (returned (make_request max_retries (scraped_accounts_by_user_endpoint t user_id)))"

text \<open>
  The body of the metrics query: \<open>payload = {}\<close>, then \<open>userId\<close> is set when the user
  id is truthy, then the filters are merged over it when they are truthy (\<open>update\<close>
  lets the filters' keys win).
\<close>

definition query_user_metrics_payload :: "int option \<Rightarrow> pydict option \<Rightarrow> pydict" where
  "query_user_metrics_payload user_id filters =
     (let payload = Map.empty;
          payload = (case user_id of
                       None \<Rightarrow> payload
                     | Some n \<Rightarrow> if n \<noteq> 0 then payload(''userId'' \<mapsto> PNum (of_int n))
                               else payload);
          payload = (case filters of
                       None \<Rightarrow> payload
                     | Some f \<Rightarrow> if f \<noteq> Map.empty then payload ++ f else payload)
      in payload)"

definition ms3_query_user_metrics ::
  "int \<Rightarrow> transport \<Rightarrow> int option \<Rightarrow> pydict option \<Rightarrow> metrics_bundle" where
  "ms3_query_user_metrics max_retries t user_id filters =
     (let payload = query_user_metrics_payload user_id filters;
          response = returned (make_request max_retries (dbquery_user_endpoint t payload))
      in case response of
           None \<Rightarrow> default_bundle
         | Some r \<Rightarrow> if r \<noteq> empty_bundle then r else default_bundle)"

definition ms4_get_dashboard_info :: "int \<Rightarrow> transport \<Rightarrow> pydict list" where
  "ms4_get_dashboard_info max_retries t =
     list_or_empty (returned (make_request max_retries (dashboard_endpoint t)))"

text \<open>
  The orchestrator holds four client objects and only calls their methods. A call
  returns a value or raises; \<open>except asyncio.TimeoutError\<close> tells a time-out from every
  other exception, and \<open>str(e)\<close> is the only other thing the orchestrator reads from
  an exception.
\<close>

datatype py_exception = AsyncioTimeoutError string | OtherError string

fun exception_str :: "py_exception \<Rightarrow> string" where
  "exception_str (AsyncioTimeoutError msg) = msg"
| "exception_str (OtherError msg) = msg"

record clients =
  get_all_users :: "py_exception + pydict list"
  get_user_profile :: "int \<Rightarrow> py_exception + pydict option"
  get_all_scraped_accounts :: "py_exception + pydict list"
  get_scraped_accounts_by_user :: "int \<Rightarrow> py_exception + pydict list"
  query_user_metrics :: "int option \<Rightarrow> py_exception + metrics_bundle"
  get_dashboard_info :: "py_exception + pydict list"

text \<open>
  The clients of this repository, as \<open>OrchestratorService.__init__\<close> builds them: each
  method goes through the executor, which swallows every failure, so none of them
  raises.
\<close>

definition service_clients :: "int \<Rightarrow> transport \<Rightarrow> clients" where
  "service_clients max_retries t =
     \<lparr>get_all_users = Inr (ms1_get_all_users max_retries t),
      get_user_profile = (\<lambda>user_id. Inr (ms1_get_user_profile max_retries t user_id)),
      get_all_scraped_accounts = Inr (ms2_get_all_scraped_accounts max_retries t),
      get_scraped_accounts_by_user =
        (\<lambda>user_id. Inr (ms2_get_scraped_accounts_by_user max_retries t user_id)),
      query_user_metrics =
        (\<lambda>user_id. Inr (ms3_query_user_metrics max_retries t user_id None)),
      get_dashboard_info = Inr (ms4_get_dashboard_info max_retries t)\<rparr>"

section \<open>Fan-out coordinator (orchestrator-service.py)\<close>

text \<open>\<open>if user_id:\<close> on an \<open>Optional[int]\<close>: None and 0 are falsy.\<close>

definition user_id_given :: "int option \<Rightarrow> bool" where
  "user_id_given user_id = (case user_id of None \<Rightarrow> False | Some n \<Rightarrow> n \<noteq> 0)"

text \<open>
  Each branch is a \<open>try\<close> block around one adapter call and an
  \<open>except Exception\<close> handler that returns the branch's default. The \<open>_try\<close>
  functions are the \<open>try\<close> blocks: \<open>Inl e\<close> when the adapter call raises \<open>e\<close>.
\<close>

definition profile_as_list :: "pydict option \<Rightarrow> pydict list" where
  "profile_as_list profile =
     (case profile of None \<Rightarrow> [] | Some p \<Rightarrow> if p \<noteq> Map.empty then [p] else [])"

definition get_users_data_try :: "clients \<Rightarrow> int option \<Rightarrow> py_exception + pydict list" where
  "get_users_data_try c user_id =
     (if user_id_given user_id
      then (case get_user_profile c (the user_id) of
              Inl e \<Rightarrow> Inl e
            | Inr profile \<Rightarrow> Inr (profile_as_list profile))
      else get_all_users c)"

definition get_users_data :: "clients \<Rightarrow> int option \<Rightarrow> py_exception + pydict list" where
  "get_users_data c user_id =
     (case get_users_data_try c user_id of
        Inl e \<Rightarrow> Inr []
      | Inr us \<Rightarrow> Inr us)"

definition get_scraped_accounts_data_try ::
  "clients \<Rightarrow> int option \<Rightarrow> py_exception + pydict list" where
  "get_scraped_accounts_data_try c user_id =
     (if user_id_given user_id
      then get_scraped_accounts_by_user c (the user_id)
      else get_all_scraped_accounts c)"

definition get_scraped_accounts_data ::
  "clients \<Rightarrow> int option \<Rightarrow> py_exception + pydict list" where
  "get_scraped_accounts_data c user_id =
     (case get_scraped_accounts_data_try c user_id of
        Inl e \<Rightarrow> Inr []
      | Inr accs \<Rightarrow> Inr accs)"

definition get_metrics_data_try :: "clients \<Rightarrow> int option \<Rightarrow> py_exception + metrics_bundle" where
  "get_metrics_data_try c user_id = query_user_metrics c user_id"

definition get_metrics_data :: "clients \<Rightarrow> int option \<Rightarrow> py_exception + metrics_bundle" where
  "get_metrics_data c user_id =
     (case get_metrics_data_try c user_id of
        Inl e \<Rightarrow> Inr default_bundle
      | Inr m \<Rightarrow> Inr m)"

definition get_dashboard_data_try :: "clients \<Rightarrow> py_exception + pydict list" where
  "get_dashboard_data_try c = get_dashboard_info c"

definition get_dashboard_data :: "clients \<Rightarrow> py_exception + pydict list" where
  "get_dashboard_data c =
     (case get_dashboard_data_try c of
        Inl e \<Rightarrow> Inr []
      | Inr d \<Rightarrow> Inr d)"

text \<open>
  Metadata. \<open>metrics.get("count", 0) > 0\<close> compares the count with an int and raises
  TypeError when the count is None or a string; the dict literal of the statuses is
  evaluated before anything else. \<open>timestamp\<close> is \<open>datetime.now().isoformat()\<close>,
  the clock being an argument here.
\<close>

record metadata =
  total_users :: nat
  total_accounts :: nat
  total_posts_analyzed :: pyval
  timestamp :: string
  services_status :: "string \<rightharpoonup> string"

definition ok_if :: "bool \<Rightarrow> string" where
  "ok_if b = (if b then ''ok'' else ''no_data'')"

definition metrics_count :: "metrics_bundle \<Rightarrow> pyval" where
  "metrics_count m = (case count m of None \<Rightarrow> PNum 0 | Some v \<Rightarrow> v)"

definition build_metadata ::
  "string \<Rightarrow> pydict list \<Rightarrow> pydict list \<Rightarrow> metrics_bundle \<Rightarrow> pydict list \<Rightarrow> py_error + metadata" where
  "build_metadata now us accs m dash =
     (case num_of (metrics_count m) of
        None \<Rightarrow> Inl TypeError
      | Some n \<Rightarrow>
          (let status = [''microservice1'' \<mapsto> ok_if (us \<noteq> []),
                         ''microservice2'' \<mapsto> ok_if (accs \<noteq> []),
                         ''microservice3'' \<mapsto> ok_if (0 < n),
                         ''microservice4'' \<mapsto> ok_if (dash \<noteq> [])]
           in Inr \<lparr>total_users = length us,
                   total_accounts = length accs,
                   total_posts_analyzed = metrics_count m,
                   timestamp = now,
                   services_status = status\<rparr>))"

text \<open>
  The consolidated snapshot. \<open>asyncio.gather(*tasks, return_exceptions=True)\<close> hands
  back, per branch, its return value or the exception it raised; a slot whose branch
  raised gets \<open>[]\<close> (\<open>{}\<close> for the metrics).
\<close>

record snapshot =
  users :: "pydict list"
  scraped_accounts :: "pydict list"
  metrics :: metrics_bundle
  dashboard_data :: "pydict list"
  metadata :: metadata

definition get_consolidated_data :: "clients \<Rightarrow> string \<Rightarrow> int option \<Rightarrow> py_error + snapshot" where
  "get_consolidated_data c now user_id =
     (let results0 = get_users_data c user_id;
          results1 = get_scraped_accounts_data c user_id;
          results2 = get_metrics_data c user_id;
          results3 = get_dashboard_data c;
          users_data = (case results0 of Inr v \<Rightarrow> v | Inl e \<Rightarrow> []);
          scraped_accounts_data = (case results1 of Inr v \<Rightarrow> v | Inl e \<Rightarrow> []);
          metrics_data = (case results2 of Inr v \<Rightarrow> v | Inl e \<Rightarrow> empty_bundle);
          dashboard_data' = (case results3 of Inr v \<Rightarrow> v | Inl e \<Rightarrow> [])
      in case build_metadata now users_data scraped_accounts_data metrics_data dashboard_data' of
           Inl err \<Rightarrow> Inl err
         | Inr md \<Rightarrow>
             Inr \<lparr>users = users_data,
                  scraped_accounts = scraped_accounts_data,
                  metrics = metrics_data,
                  dashboard_data = dashboard_data',
                  metadata = md\<rparr>)"

section \<open>Aggregation engine (orchestrator-service.py)\<close>


text \<open>\<open>sum(item.get(field, 0) for item in items)\<close>\<close>

definition sum_field :: "string \<Rightarrow> pydict list \<Rightarrow> py_error + real" where
  "sum_field field xs = py_sum (map (\<lambda>item. dict_get_or item field (PNum 0)) xs)"

subsection \<open>Rankings\<close>

record top_user =
  user_id :: pyval
  accounts_count :: nat
  email :: pyval














subsection \<open>Trends\<close>

text \<open>
  The two means of the trend computation, each a conditional expression: the sum is
  only evaluated when the half is not empty.
\<close>

definition first_half_eng :: "pydict list \<Rightarrow> py_error + real" where
  "first_half_eng sorted_items =
     (let mid = length sorted_items div 2
      in if 0 < mid
         then (case sum_field ''engagement'' (take mid sorted_items) of
                 Inl e \<Rightarrow> Inl e
               | Inr s \<Rightarrow> Inr (s / real mid))
         else Inr 0)"

definition second_half_eng :: "pydict list \<Rightarrow> py_error + real" where
  "second_half_eng sorted_items =
     (let mid = length sorted_items div 2
      in if 0 < length sorted_items - mid
         then (case sum_field ''engagement'' (drop mid sorted_items) of
                 Inl e \<Rightarrow> Inl e
               | Inr s \<Rightarrow> Inr (s / real (length sorted_items - mid)))
         else Inr 0)"

section \<open>Health prober (orchestrator-service.py)\<close>

text \<open>
  \<open>asyncio.wait_for(aw, timeout)\<close> has three outcomes: the awaited call returns
  before the deadline, it raises before the deadline, or the deadline elapses first
  and \<open>wait_for\<close> raises \<open>asyncio.TimeoutError\<close>. Time itself is not modelled:
  which of the three happens is the input.
\<close>

datatype 'a awaited = Returns 'a | Raises py_exception | DeadlineElapses

definition wait_for :: "'a awaited \<Rightarrow> py_exception + 'a" where
  "wait_for aw =
     (case aw of
        Returns v \<Rightarrow> Inr v
      | Raises e \<Rightarrow> Inl e
      | DeadlineElapses \<Rightarrow> Inl (AsyncioTimeoutError []))"

definition check_service_health :: "string \<Rightarrow> 'a awaited \<Rightarrow> string \<times> string" where
  "check_service_health service_name check_func =
     (case wait_for check_func of
        Inr v \<Rightarrow> (service_name, ''healthy'')
      | Inl (AsyncioTimeoutError msg) \<Rightarrow> (service_name, ''timeout'')
      | Inl (OtherError msg) \<Rightarrow>
          (service_name, ''unhealthy: '' @ take 50 (exception_str (OtherError msg))))"




section \<open>The data model's typing of a metric item\<close>


section \<open>The status the specification gives a probe\<close>


section \<open>Counting the accounts of a user\<close>





section \<open>Properties of the request executor\<close>

lemma request_loop_attempts_bound:
  "attempts_made (request_loop m net a s) \<le> max a (nat m)"
proof (induction m net a s rule: request_loop.induct)
  case (1 m net a s)
  show ?case
  proof (cases "int a < m")
    case False
    then show ?thesis by (simp add: request_loop.simps [of m net a s])
  next
    case True
    show ?thesis
    proof (cases "net a")
      case (Parsed body)
      with True show ?thesis by (simp add: request_loop.simps [of m net a s])
    next
      case HTTPStatusError
      show ?thesis
      proof (cases "int a < m - 1")
        case lt: True
        from 1(1)[OF True HTTPStatusError lt] HTTPStatusError True lt
        show ?thesis by (simp add: request_loop.simps [of m net a s])
      next
        case False
        with HTTPStatusError True
        show ?thesis by (simp add: request_loop.simps [of m net a s])
      qed
    next
      case OtherException
      show ?thesis
      proof (cases "int a < m - 1")
        case lt: True
        from 1(2)[OF True OtherException lt] OtherException True lt
        show ?thesis by (simp add: request_loop.simps [of m net a s])
      next
        case False
        with OtherException True
        show ?thesis by (simp add: request_loop.simps [of m net a s])
      qed
    qed
  qed
qed

lemma request_loop_first_success:
  "a \<le> k \<Longrightarrow> int k < m \<Longrightarrow> (\<forall>i. a \<le> i \<and> i < k \<longrightarrow> attempt_failed (net i)) \<Longrightarrow>
   net k = Parsed body \<Longrightarrow>
   request_loop m net a s =
     \<lparr>returned = body, attempts_made = Suc k, sleeps_made = s + (k - a)\<rparr>"
proof (induction "k - a" arbitrary: a s)
  case 0
  then have "a = k" by simp
  with 0 show ?case by (simp add: request_loop.simps [of m net k s])
next
  case (Suc d)
  then have lt: "a < k" and fa: "attempt_failed (net a)" by auto
  from lt Suc.prems have am: "int a < m" "int a < m - 1" by auto
  have IH: "request_loop m net (Suc a) (Suc s) =
     \<lparr>returned = body, attempts_made = Suc k, sleeps_made = Suc s + (k - Suc a)\<rparr>"
    using Suc.hyps Suc.prems lt by (intro Suc.hyps(1)) auto
  from fa am IH lt show ?case
    by (auto simp: request_loop.simps [of m net a s] attempt_failed_def
             split: attempt_outcome.splits)
qed

lemma request_loop_all_fail:
  "(\<forall>i. a \<le> i \<and> int i < m \<longrightarrow> attempt_failed (net i)) \<Longrightarrow>
   returned (request_loop m net a s) = None \<and>
   attempts_made (request_loop m net a s) = max a (nat m)"
proof (induction m net a s rule: request_loop.induct)
  case (1 m net a s)
  show ?case
  proof (cases "int a < m")
    case False
    then show ?thesis by (simp add: request_loop.simps [of m net a s])
  next
    case True
    with 1(3) have fa: "attempt_failed (net a)" by simp
    show ?thesis
    proof (cases "int a < m - 1")
      case lt: True
      have prem: "\<forall>i. Suc a \<le> i \<and> int i < m \<longrightarrow> attempt_failed (net i)"
        using 1(3) by auto
      show ?thesis
      proof (cases "net a")
        case (Parsed body)
        with fa show ?thesis by (simp add: attempt_failed_def)
      next
        case HTTPStatusError
        with 1(1)[OF True HTTPStatusError lt prem] True lt show ?thesis
          by (simp add: request_loop.simps [of m net a s])
      next
        case OtherException
        with 1(2)[OF True OtherException lt prem] True lt show ?thesis
          by (simp add: request_loop.simps [of m net a s])
      qed
    next
      case False
      with True fa show ?thesis
        by (auto simp: request_loop.simps [of m net a s] attempt_failed_def
                 split: attempt_outcome.splits)
    qed
  qed
qed

text \<open>
  Claim C3. Whatever the attempts do, the executor starts at most \<open>max_retries\<close>
  attempts. If attempt \<open>k\<close> (counted from 0, so the \<open>k+1\<close>-th of at most
  \<open>max_retries\<close>) is the first that parses a body, that body is returned and
  exactly \<open>k+1\<close> attempts were made: no further attempt follows the success.
  If every attempt fails, by an error status or by any other exception, the executor
  returns None after exactly \<open>max_retries\<close> attempts, and raises nothing
  (the function is total).
\<close>

theorem make_request_bounded_retry:
  "int (attempts_made (make_request max_retries net)) \<le> max 0 max_retries \<and>
   (\<forall>k body. int k < max_retries \<and> (\<forall>i<k. attempt_failed (net i)) \<and> net k = Parsed body \<longrightarrow>
      returned (make_request max_retries net) = body \<and>
      attempts_made (make_request max_retries net) = Suc k) \<and>
   ((\<forall>i. int i < max_retries \<longrightarrow> attempt_failed (net i)) \<longrightarrow>
      returned (make_request max_retries net) = None \<and>
      attempts_made (make_request max_retries net) = nat max_retries)"
proof (intro conjI allI impI)
  show "int (attempts_made (make_request max_retries net)) \<le> max 0 max_retries"
    using request_loop_attempts_bound [of max_retries net 0 0]
    by (simp add: make_request_def)
next
  fix k body
  assume h: "int k < max_retries \<and> (\<forall>i<k. attempt_failed (net i)) \<and> net k = Parsed body"
  then have "request_loop max_retries net 0 0 =
     \<lparr>returned = body, attempts_made = Suc k, sleeps_made = 0 + (k - 0)\<rparr>"
    by (intro request_loop_first_success) auto
  then show "returned (make_request max_retries net) = body"
    and "attempts_made (make_request max_retries net) = Suc k"
    by (simp_all add: make_request_def)
next
  assume h: "\<forall>i. int i < max_retries \<longrightarrow> attempt_failed (net i)"
  then have "returned (request_loop max_retries net 0 0) = None \<and>
     attempts_made (request_loop max_retries net 0 0) = max 0 (nat max_retries)"
    by (intro request_loop_all_fail) auto
  then show "returned (make_request max_retries net) = None"
    and "attempts_made (make_request max_retries net) = nat max_retries"
    by (simp_all add: make_request_def)
qed

text \<open>
  With \<open>max_retries = 3\<close>: two failures and then a success return the payload
  after three attempts; three failures return None.
\<close>

theorem make_request_bounded_retry_witness:
  "returned (make_request 3 (\<lambda>i. if i < 2 then HTTPStatusError else Parsed (Some ''payload''))) = Some ''payload'' \<and>
   attempts_made (make_request 3 (\<lambda>i. if i < 2 then HTTPStatusError else Parsed (Some ''payload''))) = 3 \<and>
   returned (make_request 3 (\<lambda>i. OtherException :: string attempt_outcome)) = None \<and>
   attempts_made (make_request 3 (\<lambda>i. OtherException :: string attempt_outcome)) = 3"
proof -
  let ?net = "\<lambda>i::nat. if i < 2 then HTTPStatusError else Parsed (Some ''payload'')"
  let ?bad = "\<lambda>i::nat. OtherException :: string attempt_outcome"
  have a: "int 2 < 3 \<and> (\<forall>i<2. attempt_failed (?net i)) \<and> ?net 2 = Parsed (Some ''payload'')"
    by (simp add: attempt_failed_def)
  have b: "\<forall>i. int i < 3 \<longrightarrow> attempt_failed (?bad i)"
    by (simp add: attempt_failed_def)
  from make_request_bounded_retry [of 3 ?net] a
  have "returned (make_request 3 ?net) = Some ''payload'' \<and> attempts_made (make_request 3 ?net) = Suc 2"
    by blast
  moreover from make_request_bounded_retry [of 3 ?bad] b
  have "returned (make_request 3 ?bad) = None \<and> attempts_made (make_request 3 ?bad) = nat 3"
    by blast
  ultimately show ?thesis by simp
qed

section \<open>Properties of the fan-out coordinator\<close>

text \<open>
  Claim C2. For any users, accounts and dashboard lists and any metrics dict whose count
  is a number (or missing, which reads as 0), the metadata is built and holds
  \<open>total_users = len(users)\<close>, \<open>total_accounts = len(accounts)\<close>,
  \<open>total_posts_analyzed = metrics.count\<close> (0 when the key is missing); services 1, 2
  and 4 are "ok" exactly when their list is not empty, service 3 exactly when the count
  is positive, and "no_data" otherwise.
\<close>

theorem build_metadata_correct:
  assumes "num_of (metrics_count m) = Some n"
  shows "\<exists>md. build_metadata now us accs m dash = Inr md \<and>
           total_users md = length us \<and>
           total_accounts md = length accs \<and>
           total_posts_analyzed md = (case count m of None \<Rightarrow> PNum 0 | Some v \<Rightarrow> v) \<and>
           timestamp md = now \<and>
           services_status md ''microservice1'' = Some (if us \<noteq> [] then ''ok'' else ''no_data'') \<and>
           services_status md ''microservice2'' = Some (if accs \<noteq> [] then ''ok'' else ''no_data'') \<and>
           services_status md ''microservice3'' = Some (if 0 < n then ''ok'' else ''no_data'') \<and>
           services_status md ''microservice4'' = Some (if dash \<noteq> [] then ''ok'' else ''no_data'')"
  using assms by (simp add: build_metadata_def ok_if_def metrics_count_def)

text \<open>
  The case of the specification: two users, no account, \<open>{items: [], count: 0}\<close> and
  one dashboard entry give 2, 0, 0 and the statuses ok, no_data, no_data, ok.
\<close>

theorem build_metadata_correct_witness:
  "\<exists>md. build_metadata ''2025-10-05T12:00:00''
           [[''id'' \<mapsto> PNum 1], [''id'' \<mapsto> PNum 2]] []
           \<lparr>items = Some [], count = Some (PNum 0), dashboard = None\<rparr>
           [[''data'' \<mapsto> PStr ''d1'']] = Inr md \<and>
         total_users md = 2 \<and> total_accounts md = 0 \<and> total_posts_analyzed md = PNum 0 \<and>
         services_status md ''microservice1'' = Some ''ok'' \<and>
         services_status md ''microservice2'' = Some ''no_data'' \<and>
         services_status md ''microservice3'' = Some ''no_data'' \<and>
         services_status md ''microservice4'' = Some ''ok''"
proof -
  have "num_of (metrics_count \<lparr>items = Some [], count = Some (PNum 0), dashboard = None\<rparr>) = Some 0"
    by (simp add: metrics_count_def)
  from build_metadata_correct [OF this, of "''2025-10-05T12:00:00''"
      "[[''id'' \<mapsto> PNum 1], [''id'' \<mapsto> PNum 2]]" "[]" "[[''data'' \<mapsto> PStr ''d1'']]"]
  obtain md where
    "build_metadata ''2025-10-05T12:00:00'' [[''id'' \<mapsto> PNum 1], [''id'' \<mapsto> PNum 2]] []
       \<lparr>items = Some [], count = Some (PNum 0), dashboard = None\<rparr>
       [[''data'' \<mapsto> PStr ''d1'']] = Inr md"
    "total_users md = 2" "total_accounts md = 0" "total_posts_analyzed md = PNum 0"
    "services_status md ''microservice1'' = Some ''ok''"
    "services_status md ''microservice2'' = Some ''no_data''"
    "services_status md ''microservice3'' = Some ''no_data''"
    "services_status md ''microservice4'' = Some ''ok''"
    by auto
  then show ?thesis by blast
qed

lemma branch_results:
  "get_users_data c uid = Inr (case get_users_data_try c uid of Inl e \<Rightarrow> [] | Inr v \<Rightarrow> v)"
  "get_scraped_accounts_data c uid =
     Inr (case get_scraped_accounts_data_try c uid of Inl e \<Rightarrow> [] | Inr v \<Rightarrow> v)"
  "get_metrics_data c uid =
     Inr (case get_metrics_data_try c uid of Inl e \<Rightarrow> default_bundle | Inr v \<Rightarrow> v)"
  "get_dashboard_data c = Inr (case get_dashboard_data_try c of Inl e \<Rightarrow> [] | Inr v \<Rightarrow> v)"
  by (simp_all add: get_users_data_def get_scraped_accounts_data_def get_metrics_data_def
        get_dashboard_data_def split: sum.splits)

lemma get_consolidated_data_slots:
  "get_consolidated_data c now uid =
     (let u = (case get_users_data_try c uid of Inl e \<Rightarrow> [] | Inr v \<Rightarrow> v);
          a = (case get_scraped_accounts_data_try c uid of Inl e \<Rightarrow> [] | Inr v \<Rightarrow> v);
          m = (case get_metrics_data_try c uid of Inl e \<Rightarrow> default_bundle | Inr v \<Rightarrow> v);
          d = (case get_dashboard_data_try c of Inl e \<Rightarrow> [] | Inr v \<Rightarrow> v)
      in case build_metadata now u a m d of
           Inl err \<Rightarrow> Inl err
         | Inr md \<Rightarrow> Inr \<lparr>users = u, scraped_accounts = a, metrics = m,
                          dashboard_data = d, metadata = md\<rparr>)"
  by (simp add: get_consolidated_data_def branch_results Let_def split: sum.splits)

lemma build_metadata_returns:
  "num_of (metrics_count m) = Some n \<Longrightarrow> \<exists>md. build_metadata now us accs m dash = Inr md"
  by (simp add: build_metadata_def)

lemma default_bundle_count: "num_of (metrics_count default_bundle) = Some 0"
  by (simp add: metrics_count_def default_bundle_def)

text \<open>
  Claim C1, as the code has it. When the adapter call of exactly one branch raises and
  the three others return, and the metrics that were returned have a count that is a
  number or is missing, \<open>get_consolidated_data\<close> returns a snapshot (it raises
  nothing) in which the failing branch's slot holds that branch's default, \<open>[]\<close>
  for users, accounts and dashboard and \<open>{items: [], count: 0, dashboard: []}\<close>
  for the metrics, and the other three slots hold what their branches returned. When
  the metrics branch is the one that fails, its default has the count 0 and no
  condition is needed.
\<close>

theorem partial_failure_isolation:
  "(get_users_data_try c uid = Inl e \<and> get_scraped_accounts_data_try c uid = Inr a \<and>
    get_metrics_data_try c uid = Inr m \<and> get_dashboard_data_try c = Inr d \<and>
    num_of (metrics_count m) = Some n \<longrightarrow>
      (\<exists>md. get_consolidated_data c now uid =
         Inr \<lparr>users = [], scraped_accounts = a, metrics = m, dashboard_data = d,
              metadata = md\<rparr>)) \<and>
   (get_users_data_try c uid = Inr u \<and> get_scraped_accounts_data_try c uid = Inl e \<and>
    get_metrics_data_try c uid = Inr m \<and> get_dashboard_data_try c = Inr d \<and>
    num_of (metrics_count m) = Some n \<longrightarrow>
      (\<exists>md. get_consolidated_data c now uid =
         Inr \<lparr>users = u, scraped_accounts = [], metrics = m, dashboard_data = d,
              metadata = md\<rparr>)) \<and>
   (get_users_data_try c uid = Inr u \<and> get_scraped_accounts_data_try c uid = Inr a \<and>
    get_metrics_data_try c uid = Inl e \<and> get_dashboard_data_try c = Inr d \<longrightarrow>
      (\<exists>md. get_consolidated_data c now uid =
         Inr \<lparr>users = u, scraped_accounts = a,
              metrics = \<lparr>items = Some [], count = Some (PNum 0), dashboard = Some []\<rparr>,
              dashboard_data = d, metadata = md\<rparr>)) \<and>
   (get_users_data_try c uid = Inr u \<and> get_scraped_accounts_data_try c uid = Inr a \<and>
    get_metrics_data_try c uid = Inr m \<and> get_dashboard_data_try c = Inl e \<and>
    num_of (metrics_count m) = Some n \<longrightarrow>
      (\<exists>md. get_consolidated_data c now uid =
         Inr \<lparr>users = u, scraped_accounts = a, metrics = m, dashboard_data = [],
              metadata = md\<rparr>))"
proof (intro conjI impI)
  assume h: "get_users_data_try c uid = Inl e \<and> get_scraped_accounts_data_try c uid = Inr a \<and>
    get_metrics_data_try c uid = Inr m \<and> get_dashboard_data_try c = Inr d \<and>
    num_of (metrics_count m) = Some n"
  then obtain md where "build_metadata now [] a m d = Inr md"
    using build_metadata_returns by blast
  with h show "\<exists>md. get_consolidated_data c now uid =
         Inr \<lparr>users = [], scraped_accounts = a, metrics = m, dashboard_data = d,
              metadata = md\<rparr>"
    by (simp add: get_consolidated_data_slots)
next
  assume h: "get_users_data_try c uid = Inr u \<and> get_scraped_accounts_data_try c uid = Inl e \<and>
    get_metrics_data_try c uid = Inr m \<and> get_dashboard_data_try c = Inr d \<and>
    num_of (metrics_count m) = Some n"
  then obtain md where "build_metadata now u [] m d = Inr md"
    using build_metadata_returns by blast
  with h show "\<exists>md. get_consolidated_data c now uid =
         Inr \<lparr>users = u, scraped_accounts = [], metrics = m, dashboard_data = d,
              metadata = md\<rparr>"
    by (simp add: get_consolidated_data_slots)
next
  assume h: "get_users_data_try c uid = Inr u \<and> get_scraped_accounts_data_try c uid = Inr a \<and>
    get_metrics_data_try c uid = Inl e \<and> get_dashboard_data_try c = Inr d"
  obtain md where "build_metadata now u a default_bundle d = Inr md"
    using build_metadata_returns [OF default_bundle_count] by blast
  with h show "\<exists>md. get_consolidated_data c now uid =
         Inr \<lparr>users = u, scraped_accounts = a,
              metrics = \<lparr>items = Some [], count = Some (PNum 0), dashboard = Some []\<rparr>,
              dashboard_data = d, metadata = md\<rparr>"
    by (simp add: get_consolidated_data_slots default_bundle_def)
next
  assume h: "get_users_data_try c uid = Inr u \<and> get_scraped_accounts_data_try c uid = Inr a \<and>
    get_metrics_data_try c uid = Inr m \<and> get_dashboard_data_try c = Inl e \<and>
    num_of (metrics_count m) = Some n"
  then obtain md where "build_metadata now u a m [] = Inr md"
    using build_metadata_returns by blast
  with h show "\<exists>md. get_consolidated_data c now uid =
         Inr \<lparr>users = u, scraped_accounts = a, metrics = m, dashboard_data = [],
              metadata = md\<rparr>"
    by (simp add: get_consolidated_data_slots)
qed

text \<open>
  Two runs without a user id: the users adapter raises while the others return, and the
  metrics adapter raises while the others return.
\<close>

theorem partial_failure_isolation_witness:
  "(\<exists>md. get_consolidated_data
      \<lparr>get_all_users = Inl (OtherError ''connection refused''),
       get_user_profile = (\<lambda>i. Inr None),
       get_all_scraped_accounts = Inr [[''user_id'' \<mapsto> PNum 1]],
       get_scraped_accounts_by_user = (\<lambda>i. Inr []),
       query_user_metrics = (\<lambda>i. Inr \<lparr>items = Some [], count = Some (PNum 3), dashboard = Some []\<rparr>),
       get_dashboard_info = Inr [[''data'' \<mapsto> PStr ''d1'']]\<rparr>
      ''2025-10-05T12:00:00'' None =
    Inr \<lparr>users = [],
         scraped_accounts = [[''user_id'' \<mapsto> PNum 1]],
         metrics = \<lparr>items = Some [], count = Some (PNum 3), dashboard = Some []\<rparr>,
         dashboard_data = [[''data'' \<mapsto> PStr ''d1'']],
         metadata = md\<rparr>) \<and>
   (\<exists>md. get_consolidated_data
      \<lparr>get_all_users = Inr [[''id'' \<mapsto> PNum 1]],
       get_user_profile = (\<lambda>i. Inr None),
       get_all_scraped_accounts = Inr [[''user_id'' \<mapsto> PNum 1]],
       get_scraped_accounts_by_user = (\<lambda>i. Inr []),
       query_user_metrics = (\<lambda>i. Inl (AsyncioTimeoutError [])),
       get_dashboard_info = Inr [[''data'' \<mapsto> PStr ''d1'']]\<rparr>
      ''2025-10-05T12:00:00'' None =
    Inr \<lparr>users = [[''id'' \<mapsto> PNum 1]],
         scraped_accounts = [[''user_id'' \<mapsto> PNum 1]],
         metrics = \<lparr>items = Some [], count = Some (PNum 0), dashboard = Some []\<rparr>,
         dashboard_data = [[''data'' \<mapsto> PStr ''d1'']],
         metadata = md\<rparr>)"
proof -
  let ?c1 = "\<lparr>get_all_users = Inl (OtherError ''connection refused''),
       get_user_profile = (\<lambda>i. Inr None),
       get_all_scraped_accounts = Inr [[''user_id'' \<mapsto> PNum 1]],
       get_scraped_accounts_by_user = (\<lambda>i. Inr []),
       query_user_metrics = (\<lambda>i. Inr \<lparr>items = Some [], count = Some (PNum 3), dashboard = Some []\<rparr>),
       get_dashboard_info = Inr [[''data'' \<mapsto> PStr ''d1'']]\<rparr>"
  let ?c3 = "\<lparr>get_all_users = Inr [[''id'' \<mapsto> PNum 1]],
       get_user_profile = (\<lambda>i. Inr None),
       get_all_scraped_accounts = Inr [[''user_id'' \<mapsto> PNum 1]],
       get_scraped_accounts_by_user = (\<lambda>i. Inr []),
       query_user_metrics = (\<lambda>i. Inl (AsyncioTimeoutError [])),
       get_dashboard_info = Inr [[''data'' \<mapsto> PStr ''d1'']]\<rparr>"
  let ?m = "\<lparr>items = Some [], count = Some (PNum 3), dashboard = Some []\<rparr>"
  have h1: "get_users_data_try ?c1 None = Inl (OtherError ''connection refused'') \<and>
      get_scraped_accounts_data_try ?c1 None = Inr [[''user_id'' \<mapsto> PNum 1]] \<and>
      get_metrics_data_try ?c1 None = Inr ?m \<and>
      get_dashboard_data_try ?c1 = Inr [[''data'' \<mapsto> PStr ''d1'']] \<and>
      num_of (metrics_count ?m) = Some 3"
    by (simp add: get_users_data_try_def get_scraped_accounts_data_try_def
        get_metrics_data_try_def get_dashboard_data_try_def user_id_given_def metrics_count_def)
  have h3: "get_users_data_try ?c3 None = Inr [[''id'' \<mapsto> PNum 1]] \<and>
      get_scraped_accounts_data_try ?c3 None = Inr [[''user_id'' \<mapsto> PNum 1]] \<and>
      get_metrics_data_try ?c3 None = Inl (AsyncioTimeoutError []) \<and>
      get_dashboard_data_try ?c3 = Inr [[''data'' \<mapsto> PStr ''d1'']]"
    by (simp add: get_users_data_try_def get_scraped_accounts_data_try_def
        get_metrics_data_try_def get_dashboard_data_try_def user_id_given_def)
  from h1 partial_failure_isolation [where c = ?c1 and uid = None and m = ?m and n = 3
      and e = "OtherError ''connection refused''" and a = "[[''user_id'' \<mapsto> PNum 1]]"
      and d = "[[''data'' \<mapsto> PStr ''d1'']]" and now = "''2025-10-05T12:00:00''"]
  have "\<exists>md. get_consolidated_data ?c1 ''2025-10-05T12:00:00'' None =
    Inr \<lparr>users = [], scraped_accounts = [[''user_id'' \<mapsto> PNum 1]], metrics = ?m,
         dashboard_data = [[''data'' \<mapsto> PStr ''d1'']], metadata = md\<rparr>"
    by blast
  moreover from h3 partial_failure_isolation [where c = ?c3 and uid = None
      and e = "AsyncioTimeoutError []" and a = "[[''user_id'' \<mapsto> PNum 1]]"
      and u = "[[''id'' \<mapsto> PNum 1]]"
      and d = "[[''data'' \<mapsto> PStr ''d1'']]" and now = "''2025-10-05T12:00:00''"]
  have "\<exists>md. get_consolidated_data ?c3 ''2025-10-05T12:00:00'' None =
    Inr \<lparr>users = [[''id'' \<mapsto> PNum 1]], scraped_accounts = [[''user_id'' \<mapsto> PNum 1]],
         metrics = \<lparr>items = Some [], count = Some (PNum 0), dashboard = Some []\<rparr>,
         dashboard_data = [[''data'' \<mapsto> PStr ''d1'']], metadata = md\<rparr>"
    by blast
  ultimately show ?thesis by blast
qed

text \<open>
  Where the claim as first stated fails: the users adapter raises, the three others
  return, and the metrics service answers with \<open>"count": null\<close>. The comparison
  \<open>metrics.get("count", 0) > 0\<close> in \<open>_build_metadata\<close> then raises TypeError,
  outside every branch's handler, and the exception reaches the caller.
\<close>

theorem partial_failure_null_count_counterexample:
  "get_users_data_try
      \<lparr>get_all_users = Inl (OtherError ''connection refused''),
       get_user_profile = (\<lambda>i. Inr None),
       get_all_scraped_accounts = Inr [[''user_id'' \<mapsto> PNum 1]],
       get_scraped_accounts_by_user = (\<lambda>i. Inr []),
       query_user_metrics = (\<lambda>i. Inr \<lparr>items = Some [], count = Some PNone, dashboard = Some []\<rparr>),
       get_dashboard_info = Inr [[''data'' \<mapsto> PStr ''d1'']]\<rparr> None =
     Inl (OtherError ''connection refused'') \<and>
   get_scraped_accounts_data_try
      \<lparr>get_all_users = Inl (OtherError ''connection refused''),
       get_user_profile = (\<lambda>i. Inr None),
       get_all_scraped_accounts = Inr [[''user_id'' \<mapsto> PNum 1]],
       get_scraped_accounts_by_user = (\<lambda>i. Inr []),
       query_user_metrics = (\<lambda>i. Inr \<lparr>items = Some [], count = Some PNone, dashboard = Some []\<rparr>),
       get_dashboard_info = Inr [[''data'' \<mapsto> PStr ''d1'']]\<rparr> None =
     Inr [[''user_id'' \<mapsto> PNum 1]] \<and>
   get_metrics_data_try
      \<lparr>get_all_users = Inl (OtherError ''connection refused''),
       get_user_profile = (\<lambda>i. Inr None),
       get_all_scraped_accounts = Inr [[''user_id'' \<mapsto> PNum 1]],
       get_scraped_accounts_by_user = (\<lambda>i. Inr []),
       query_user_metrics = (\<lambda>i. Inr \<lparr>items = Some [], count = Some PNone, dashboard = Some []\<rparr>),
       get_dashboard_info = Inr [[''data'' \<mapsto> PStr ''d1'']]\<rparr> None =
     Inr \<lparr>items = Some [], count = Some PNone, dashboard = Some []\<rparr> \<and>
   get_dashboard_data_try
      \<lparr>get_all_users = Inl (OtherError ''connection refused''),
       get_user_profile = (\<lambda>i. Inr None),
       get_all_scraped_accounts = Inr [[''user_id'' \<mapsto> PNum 1]],
       get_scraped_accounts_by_user = (\<lambda>i. Inr []),
       query_user_metrics = (\<lambda>i. Inr \<lparr>items = Some [], count = Some PNone, dashboard = Some []\<rparr>),
       get_dashboard_info = Inr [[''data'' \<mapsto> PStr ''d1'']]\<rparr> =
     Inr [[''data'' \<mapsto> PStr ''d1'']] \<and>
   get_consolidated_data
      \<lparr>get_all_users = Inl (OtherError ''connection refused''),
       get_user_profile = (\<lambda>i. Inr None),
       get_all_scraped_accounts = Inr [[''user_id'' \<mapsto> PNum 1]],
       get_scraped_accounts_by_user = (\<lambda>i. Inr []),
       query_user_metrics = (\<lambda>i. Inr \<lparr>items = Some [], count = Some PNone, dashboard = Some []\<rparr>),
       get_dashboard_info = Inr [[''data'' \<mapsto> PStr ''d1'']]\<rparr>
      ''2025-10-05T12:00:00'' None =
     Inl TypeError"
  by (simp add: get_consolidated_data_slots get_users_data_try_def
        get_scraped_accounts_data_try_def get_metrics_data_try_def get_dashboard_data_try_def
        user_id_given_def build_metadata_def metrics_count_def)

text \<open>
  Claim C8. The upstream state is the \<open>clients\<close> value: every adapter call answers
  the same both times. Two calls with the same user id, made at two readings of the
  clock, either both raise the same error or both return, and then the snapshots agree
  on users, scraped accounts, metrics, dashboard data and every metadata field; only
  \<open>metadata.timestamp\<close> follows the clock.
\<close>

theorem consolidated_data_idempotent:
  "(case (get_consolidated_data c now1 uid, get_consolidated_data c now2 uid) of
      (Inr s1, Inr s2) \<Rightarrow>
        users s1 = users s2 \<and>
        scraped_accounts s1 = scraped_accounts s2 \<and>
        metrics s1 = metrics s2 \<and>
        dashboard_data s1 = dashboard_data s2 \<and>
        total_users (metadata s1) = total_users (metadata s2) \<and>
        total_accounts (metadata s1) = total_accounts (metadata s2) \<and>
        total_posts_analyzed (metadata s1) = total_posts_analyzed (metadata s2) \<and>
        services_status (metadata s1) = services_status (metadata s2) \<and>
        timestamp (metadata s1) = now1 \<and> timestamp (metadata s2) = now2
    | (Inl e1, Inl e2) \<Rightarrow> e1 = e2
    | (Inl e1, Inr s2) \<Rightarrow> False
    | (Inr s1, Inl e2) \<Rightarrow> False)"
  by (auto simp: get_consolidated_data_slots build_metadata_def Let_def
           split: sum.splits option.splits)

text \<open>
  Claim C9. A user id of 0 is falsy and is treated as no user id: the users branch
  lists all users, the accounts branch lists all scraped accounts, the body of the
  metrics query is the one built for no user id and has no \<open>userId\<close> key, and with
  the clients of this repository the whole consolidation returns what it returns without
  a user id.
\<close>

theorem user_id_zero_as_absent:
  "get_users_data c (Some 0) = get_users_data c None \<and>
   get_users_data_try c (Some 0) = get_all_users c \<and>
   get_scraped_accounts_data c (Some 0) = get_scraped_accounts_data c None \<and>
   get_scraped_accounts_data_try c (Some 0) = get_all_scraped_accounts c \<and>
   query_user_metrics_payload (Some 0) filters = query_user_metrics_payload None filters \<and>
   query_user_metrics_payload (Some 0) None ''userId'' = None \<and>
   ms3_query_user_metrics max_retries t (Some 0) filters =
     ms3_query_user_metrics max_retries t None filters \<and>
   get_consolidated_data (service_clients max_retries t) now (Some 0) =
     get_consolidated_data (service_clients max_retries t) now None"
proof -
  have p: "query_user_metrics_payload (Some 0) filters = query_user_metrics_payload None filters"
    for filters
    by (simp add: query_user_metrics_payload_def)
  have q: "ms3_query_user_metrics max_retries t (Some 0) filters =
     ms3_query_user_metrics max_retries t None filters" for filters
    by (simp add: ms3_query_user_metrics_def p)
  have u: "get_users_data_try c (Some 0) = get_users_data_try c None" for c
    by (simp add: get_users_data_try_def user_id_given_def)
  have a: "get_scraped_accounts_data_try c (Some 0) = get_scraped_accounts_data_try c None" for c
    by (simp add: get_scraped_accounts_data_try_def user_id_given_def)
  have m: "get_metrics_data_try (service_clients max_retries t) (Some 0) =
           get_metrics_data_try (service_clients max_retries t) None"
    by (simp add: get_metrics_data_try_def service_clients_def q)
  show ?thesis
    by (simp add: p q u a m get_users_data_def get_scraped_accounts_data_def
        get_consolidated_data_slots)
       (simp add: get_users_data_try_def get_scraped_accounts_data_try_def user_id_given_def
          query_user_metrics_payload_def)
qed

section \<open>Properties of the aggregation engine\<close>

lemma py_sorted_length: "py_sorted key reverse xs = Inr ys \<Longrightarrow> length ys = length xs"
  by (auto simp: py_sorted_def stable_sort_key_def split: if_splits)

text \<open>
  Claim C10. In the trend computation, when there are at least two items, the sorted
  list has as many, \<open>mid = n // 2\<close> and \<open>n - mid\<close> are both at least 1, so
  neither division is by zero, and the two means are the quotients themselves: the
  fallback to 0 for an empty half is never taken.
\<close>

theorem trend_halves_nonempty:
  assumes "2 \<le> length xs"
    and "py_sorted (\<lambda>x. dict_get_or x ''datePosted'' (PStr [])) False xs = Inr sorted_items"
  shows "1 \<le> length sorted_items div 2 \<and>
         1 \<le> length sorted_items - length sorted_items div 2 \<and>
         real (length sorted_items div 2) \<noteq> 0 \<and>
         real (length sorted_items - length sorted_items div 2) \<noteq> 0 \<and>
         first_half_eng sorted_items =
           (case sum_field ''engagement'' (take (length sorted_items div 2) sorted_items) of
              Inl e \<Rightarrow> Inl e
            | Inr s \<Rightarrow> Inr (s / real (length sorted_items div 2))) \<and>
         second_half_eng sorted_items =
           (case sum_field ''engagement'' (drop (length sorted_items div 2) sorted_items) of
              Inl e \<Rightarrow> Inl e
            | Inr s \<Rightarrow> Inr (s / real (length sorted_items - length sorted_items div 2)))"
proof -
  from assms have n: "2 \<le> length sorted_items"
    by (simp add: py_sorted_length)
  then have mid: "0 < length sorted_items div 2" by simp
  from n have rest: "0 < length sorted_items - length sorted_items div 2" by simp
  from mid rest show ?thesis
    by (auto simp: first_half_eng_def second_half_eng_def Let_def)
qed

text \<open>Two items, given out of date order: each half holds one of them.\<close>

theorem trend_halves_nonempty_witness:
  "1 \<le> length [[''datePosted'' \<mapsto> PStr ''2024-01-01'', ''engagement'' \<mapsto> PNum 100],
               [''datePosted'' \<mapsto> PStr ''2024-01-02'', ''engagement'' \<mapsto> PNum 115]] div 2 \<and>
   first_half_eng [[''datePosted'' \<mapsto> PStr ''2024-01-01'', ''engagement'' \<mapsto> PNum 100],
                   [''datePosted'' \<mapsto> PStr ''2024-01-02'', ''engagement'' \<mapsto> PNum 115]] = Inr 100 \<and>
   second_half_eng [[''datePosted'' \<mapsto> PStr ''2024-01-01'', ''engagement'' \<mapsto> PNum 100],
                    [''datePosted'' \<mapsto> PStr ''2024-01-02'', ''engagement'' \<mapsto> PNum 115]] = Inr 115"
proof -
  let ?a = "[''datePosted'' \<mapsto> PStr ''2024-01-01'', ''engagement'' \<mapsto> PNum 100]"
  let ?b = "[''datePosted'' \<mapsto> PStr ''2024-01-02'', ''engagement'' \<mapsto> PNum 115]"
  have len: "2 \<le> length [?b, ?a]" by simp
  have srt: "py_sorted (\<lambda>x. dict_get_or x ''datePosted'' (PStr [])) False [?b, ?a] = Inr [?a, ?b]"
    by (simp add: py_sorted_def stable_sort_key_def dict_get_or_def str_value_def)
  have s1: "sum_field ''engagement'' [?a] = Inr 100"
    by (simp add: sum_field_def py_sum_def dict_get_or_def)
  have s2: "sum_field ''engagement'' [?b] = Inr 115"
    by (simp add: sum_field_def py_sum_def dict_get_or_def)
  from trend_halves_nonempty [OF len srt] s1 s2 show ?thesis
    by simp
qed

section \<open>Properties of the health prober\<close>

lemma check_service_health_cases:
  "check_service_health name (Returns v) = (name, ''healthy'')"
  "check_service_health name DeadlineElapses = (name, ''timeout'')"
  "check_service_health name (Raises (AsyncioTimeoutError msg)) = (name, ''timeout'')"
  "check_service_health name (Raises (OtherError msg)) = (name, ''unhealthy: '' @ take 50 msg)"
  by (simp_all add: check_service_health_def wait_for_def)






section \<open>Properties of the rankings\<close>










































end
